theory Spec2Isabelle
  imports Complex_Main "HOL-Library.Sublist" "HOL-Library.List_Lexorder"
    "HOL-Library.Product_Lexorder" "HOL-Library.Multiset"
begin

section \<open>Python strings\<close>

text \<open>
  A Python \<open>str\<close> is a sequence of Unicode code points, and \<open>len\<close> counts code points.
  The engine writes a filler whose code points lie beyond one byte, so a string is modelled
  as a list of code points. Strings compare lexicographically by code point, which is the
  order of \<open>HOL-Library.List_Lexorder\<close>.
\<close>

type_synonym pystr = "nat list"

abbreviation str :: "string \<Rightarrow> pystr" where
  "str s \<equiv> map of_char s"

text \<open>
  \<open>s.find(sub, start)\<close>: the lowest index \<open>i \<ge> start\<close> with \<open>s[i:i+len(sub)] = sub\<close>,
  or \<open>-1\<close> (here \<open>None\<close>). The empty string is found at every index up to \<open>len(s)\<close>.
\<close>

fun find_in :: "pystr \<Rightarrow> pystr \<Rightarrow> nat option" where
  "find_in sub [] = (if sub = [] then Some 0 else None)"
| "find_in sub (c # cs) =
     (if prefix sub (c # cs) then Some 0 else map_option Suc (find_in sub cs))"

definition py_find :: "pystr \<Rightarrow> pystr \<Rightarrow> nat \<Rightarrow> nat option" where
  "py_find s sub start =
     (if length s < start then None
      else map_option (\<lambda>i. start + i) (find_in sub (drop start s)))"

text \<open>\<open>sub in s\<close>\<close>

definition py_in :: "pystr \<Rightarrow> pystr \<Rightarrow> bool" where
  "py_in sub s = (py_find s sub 0 \<noteq> None)"

text \<open>
  \<open>xs[start:stop] = repl\<close> for non-negative bounds: both bounds are clipped to the length
  and a stop below the start counts as the start.
\<close>

definition set_slice :: "'a list \<Rightarrow> nat \<Rightarrow> nat \<Rightarrow> 'a list \<Rightarrow> 'a list" where
  "set_slice xs start stop repl = take start xs @ repl @ drop (max start stop) xs"

section \<open>Redaction requests\<close>

text \<open>
  The suggestions are dictionaries with the keys \<open>text\<close>, \<open>type\<close>, \<open>confidence\<close> and
  \<open>reason\<close> (built in \<open>main.py\<close>); the engine reads \<open>text\<close> only.
\<close>

record suggestion =
  stext :: pystr
  stype :: pystr
  confidence :: nat
  reason :: pystr

section \<open>The text applier: \<open>RedactionEngine._redact_text\<close>\<close>

definition REDACTED :: pystr where
  "REDACTED = str ''[REDACTED]''"

type_synonym redaction = "nat \<times> nat \<times> pystr"

text \<open>
  \<open>suggestions.sort(key=lambda x: (-len(x['text']), x['text'].lower()))\<close>.
  \<open>list.sort\<close> is stable, as \<open>sort_key\<close> is. \<open>str.lower\<close> is Python's Unicode
  lower-casing; it is a parameter of the model.
\<close>

definition sort_suggestions :: "(pystr \<Rightarrow> pystr) \<Rightarrow> suggestion list \<Rightarrow> suggestion list" where
  "sort_suggestions lower suggestions =
     sort_key (\<lambda>x. (- int (length (stext x)), lower (stext x))) suggestions"

text \<open>
  The inner loop
  \<^verbatim>\<open>
  start = 0
  while True:
      pos = content.find(text, start)
      if pos == -1: break
      redactions.append((pos, pos + len(text), '[REDACTED]'))
      start = pos + 1
  \<close>
\<close>

function find_occurrences :: "pystr \<Rightarrow> pystr \<Rightarrow> nat \<Rightarrow> redaction list" where
  "find_occurrences content t start =
     (case py_find content t start of
        None \<Rightarrow> []
      | Some pos \<Rightarrow> (pos, pos + length t, REDACTED) # find_occurrences content t (pos + 1))"
  by pat_completeness auto
termination
proof (relation "measure (\<lambda>(content, t, start). Suc (length content) - start)")
  show "wf (measure (\<lambda>(content, t, start). Suc (length content) - start))"
    by simp
next
  fix content t :: pystr and start pos :: nat
  assume found: "py_find content t start = Some pos"
  have bound: "i \<le> length cs" if "find_in sub cs = Some i" for sub cs i
    using that by (induction cs arbitrary: i) (auto split: if_splits)
  from found obtain i where "find_in t (drop start content) = Some i" "pos = start + i"
    "start \<le> length content"
    by (auto simp: py_find_def split: if_splits)
  with bound [of t "drop start content" i] have "start \<le> pos" "pos \<le> length content"
    by auto
  then show "((content, t, pos + 1), content, t, start)
      \<in> measure (\<lambda>(content, t, start). Suc (length content) - start)"
    by simp
qed

declare find_occurrences.simps [simp del]

definition collect_redactions :: "pystr \<Rightarrow> suggestion list \<Rightarrow> redaction list" where
  "collect_redactions content suggestions =
     concat (map (\<lambda>s. find_occurrences content (stext s) 0) suggestions)"

text \<open>
  \<open>redactions.sort(key=lambda x: x[0], reverse=True)\<close>: descending by start offset; a
  reversed sort keeps the original order of entries with equal keys.
\<close>

definition sort_redactions :: "redaction list \<Rightarrow> redaction list" where
  "sort_redactions rs = sort_key (\<lambda>r. - int (fst r)) rs"

definition apply_redactions :: "redaction list \<Rightarrow> pystr \<Rightarrow> pystr" where
  "apply_redactions rs content_chars =
     fold (\<lambda>(start, stop, replacement) cs. set_slice cs start stop replacement) rs content_chars"

definition redact_content :: "(pystr \<Rightarrow> pystr) \<Rightarrow> pystr \<Rightarrow> suggestion list \<Rightarrow> pystr" where
  "redact_content lower content suggestions =
     apply_redactions
       (sort_redactions (collect_redactions content (sort_suggestions lower suggestions)))
       content"


section \<open>Word documents: the paragraph rewrite of \<open>RedactionEngine._redact_docx\<close>\<close>

text \<open>
  \<open>s.replace(old, new)\<close> replaces the non-overlapping occurrences of \<open>old\<close> from left to
  right; an empty \<open>old\<close> matches before every character and at the end.
\<close>

function replace_nonempty :: "pystr \<Rightarrow> pystr \<Rightarrow> pystr \<Rightarrow> pystr" where
  "replace_nonempty old new [] = []"
| "replace_nonempty old new (c # cs) =
     (if old \<noteq> [] \<and> prefix old (c # cs)
      then new @ replace_nonempty old new (drop (length old) (c # cs))
      else c # replace_nonempty old new cs)"
  by pat_completeness auto
termination
  by (relation "measure (\<lambda>(old, new, s). length s)") (auto simp: neq_Nil_conv)

definition py_replace :: "pystr \<Rightarrow> pystr \<Rightarrow> pystr \<Rightarrow> pystr" where
  "py_replace s old new =
     (if old = [] then new @ concat (map (\<lambda>c. c # new) s) else replace_nonempty old new s)"

text \<open>\<open>sep.join(parts)\<close>\<close>

fun py_join :: "pystr \<Rightarrow> pystr list \<Rightarrow> pystr" where
  "py_join sep [] = []"
| "py_join sep [p] = p"
| "py_join sep (p # q # ps) = p @ sep @ py_join sep (q # ps)"

text \<open>
  A paragraph of python-docx is the sequence of its inline children: runs, and hyperlinks
  that hold runs of their own. \<open>paragraph.runs\<close> are the direct runs only, while
  \<open>paragraph.text\<close> is the text of the runs and of the hyperlinks, in document order.
  A run is its text and the font settings the engine writes; of a hyperlink only the
  visible text is kept.
\<close>

record run =
  run_text :: pystr
  font_name :: "pystr option"
  font_size :: "nat option"
  font_bold :: "bool option"
  font_rgb :: "(nat \<times> nat \<times> nat) option"

datatype inline = Run run | Hyperlink pystr

type_synonym para = "inline list"

fun inline_text :: "inline \<Rightarrow> pystr" where
  "inline_text (Run r) = run_text r"
| "inline_text (Hyperlink t) = t"

definition paragraph_text :: "para \<Rightarrow> pystr" where
  "paragraph_text p = concat (map inline_text p)"

text \<open>\<open>paragraph.runs\<close>\<close>

fun paragraph_runs :: "para \<Rightarrow> run list" where
  "paragraph_runs [] = []"
| "paragraph_runs (Run r # p) = r # paragraph_runs p"
| "paragraph_runs (Hyperlink t # p) = paragraph_runs p"

text \<open>
  One step of \<open>for run in paragraph.runs: run.text = ""\<close> on an inline child: the loop
  reaches the direct runs and leaves a hyperlink as it is.
\<close>

fun clear_run :: "inline \<Rightarrow> inline" where
  "clear_run (Run r) = Run (r\<lparr>run_text := []\<rparr>)"
| "clear_run (Hyperlink t) = Hyperlink t"

text \<open>
  The filler literal of the source file is the three code points U+00E2, U+2013, U+02C6
  (a block character that was stored mis-decoded); it is repeated \<open>len(text_to_redact)\<close>
  times.
\<close>

definition FILLER :: pystr where
  "FILLER = [226, 8211, 710]"

definition new_run :: "pystr \<Rightarrow> run" where
  "new_run t = \<lparr>run_text = t, font_name = Some (str ''Calibri''), font_size = Some 11,
                font_bold = Some True, font_rgb = Some (0, 0, 0)\<rparr>"

definition redact_paragraph :: "pystr \<Rightarrow> para \<Rightarrow> para" where
  "redact_paragraph text_to_redact p =
     (if py_in text_to_redact (paragraph_text p)
      then (let t = paragraph_text p;
                redacted_text =
                  py_replace t text_to_redact (concat (replicate (length text_to_redact) FILLER))
            in map clear_run p @ [Run (new_run redacted_text)])
      else p)"

definition redact_paragraphs :: "suggestion list \<Rightarrow> para list \<Rightarrow> para list" where
  "redact_paragraphs suggestions paragraphs =
     fold (\<lambda>s ps. map (redact_paragraph (stext s)) ps) suggestions paragraphs"

section \<open>Exceptions and the file system\<close>

datatype exn_kind =
  ValueError | RuntimeError | FileNotFoundError | OSError | UnicodeDecodeError | LibraryError

datatype exn = Exn exn_kind pystr

fun exn_str :: "exn \<Rightarrow> pystr" where
  "exn_str (Exn k m) = m"

type_synonym path = pystr

text \<open>
  A file holds plain text, a Word document (its paragraphs), a PDF (the text of its pages,
  as \<open>page.get_text()\<close> returns it) or bytes that no reader of the engine can parse.
\<close>

datatype fdata = TextFile pystr | DocxFile "para list" | PdfFile "pystr list" | Damaged

datatype io_event = EvRead path | EvWrite path | EvExists path | EvRemove path

text \<open>
  The world of one call: the files, the log of the file operations made so far, and the
  space left on the device. With \<open>write_fault = Some n\<close> a text write of more than \<open>n\<close>
  characters stores the first \<open>n\<close> and raises \<open>OSError\<close>, and the write of a container
  (Word, PDF) leaves a damaged file and raises; with \<open>None\<close> every write completes.
  The file is created when it is opened for writing, before the write can fail.
\<close>

record world =
  files :: "path \<rightharpoonup> fdata"
  io_log :: "io_event list"
  write_fault :: "nat option"

definition logged :: "io_event \<Rightarrow> world \<Rightarrow> world" where
  "logged ev w = w\<lparr>io_log := io_log w @ [ev]\<rparr>"

text \<open>\<open>with open(p, 'r', encoding='utf-8') as f: content = f.read()\<close>\<close>

definition read_text :: "world \<Rightarrow> path \<Rightarrow> (exn + pystr) \<times> world" where
  "read_text w p =
     (case files w p of
        None \<Rightarrow> (Inl (Exn FileNotFoundError (str ''No such file or directory'')), logged (EvRead p) w)
      | Some (TextFile s) \<Rightarrow> (Inr s, logged (EvRead p) w)
      | Some _ \<Rightarrow> (Inl (Exn UnicodeDecodeError (str ''invalid start byte'')), logged (EvRead p) w))"

text \<open>\<open>with open(p, 'w', encoding='utf-8') as f: f.write(s)\<close>\<close>

definition write_text :: "world \<Rightarrow> path \<Rightarrow> pystr \<Rightarrow> (exn + unit) \<times> world" where
  "write_text w p s =
     (case write_fault w of
        None \<Rightarrow> (Inr (), logged (EvWrite p) (w\<lparr>files := (files w)(p \<mapsto> TextFile s)\<rparr>))
      | Some n \<Rightarrow>
          if length s \<le> n
          then (Inr (), logged (EvWrite p) (w\<lparr>files := (files w)(p \<mapsto> TextFile s)\<rparr>))
          else (Inl (Exn OSError (str ''No space left on device'')),
                logged (EvWrite p) (w\<lparr>files := (files w)(p \<mapsto> TextFile (take n s))\<rparr>)))"

text \<open>\<open>doc.save(p)\<close> of python-docx and of PyMuPDF\<close>

definition write_container :: "world \<Rightarrow> path \<Rightarrow> fdata \<Rightarrow> (exn + unit) \<times> world" where
  "write_container w p d =
     (case write_fault w of
        None \<Rightarrow> (Inr (), logged (EvWrite p) (w\<lparr>files := (files w)(p \<mapsto> d)\<rparr>))
      | Some n \<Rightarrow> (Inl (Exn OSError (str ''No space left on device'')),
                   logged (EvWrite p) (w\<lparr>files := (files w)(p \<mapsto> Damaged)\<rparr>)))"

text \<open>\<open>os.path.exists(p)\<close> and \<open>os.remove(p)\<close> (called on an existing file only)\<close>

definition path_exists :: "world \<Rightarrow> path \<Rightarrow> bool \<times> world" where
  "path_exists w p = (files w p \<noteq> None, logged (EvExists p) w)"

definition remove_file :: "world \<Rightarrow> path \<Rightarrow> world" where
  "remove_file w p = logged (EvRemove p) (w\<lparr>files := (files w)(p := None)\<rparr>)"


section \<open>The appliers and their dispatch\<close>

definition wrap_error :: "string \<Rightarrow> exn \<Rightarrow> exn" where
  \<comment> \<open>\<open>raise RuntimeError(f"<label>{str(e)}")\<close>\<close>
  "wrap_error label e = Exn RuntimeError (str label @ exn_str e)"

text \<open>
  \<open>_redact_text\<close>: read, rewrite, write, return the output path. Every exception is
  re-raised as a \<open>RuntimeError\<close>; the handler does nothing else. (The sort also reorders
  the caller's list in place; the callers do not depend on its order.)
\<close>

definition redact_text ::
  "(pystr \<Rightarrow> pystr) \<Rightarrow> world \<Rightarrow> path \<Rightarrow> suggestion list \<Rightarrow> path \<Rightarrow> (exn + path option) \<times> world" where
  "redact_text lower w file_path suggestions output_path =
     (case read_text w file_path of
        (Inl e, w1) \<Rightarrow> (Inl (wrap_error ''Text redaction failed: '' e), w1)
      | (Inr content, w1) \<Rightarrow>
          (case write_text w1 output_path (redact_content lower content suggestions) of
             (Inl e, w2) \<Rightarrow> (Inl (wrap_error ''Text redaction failed: '' e), w2)
           | (Inr u, w2) \<Rightarrow> (Inr (Some output_path), w2)))"

text \<open>\<open>docx.Document(p)\<close>\<close>

definition read_docx :: "world \<Rightarrow> path \<Rightarrow> (exn + para list) \<times> world" where
  "read_docx w p =
     (case files w p of
        Some (DocxFile ps) \<Rightarrow> (Inr ps, logged (EvRead p) w)
      | _ \<Rightarrow> (Inl (Exn LibraryError (str ''Package not found'')), logged (EvRead p) w))"

text \<open>
  \<open>_redact_docx\<close>. It constructs an \<open>AIRedactionSuggester\<close> that it never uses; the class
  is in a module outside the sources, so whether its constructor raises is the parameter
  \<open>ai_init\<close> (\<open>None\<close>: it returns).
\<close>

definition redact_docx ::
  "exn option \<Rightarrow> world \<Rightarrow> path \<Rightarrow> suggestion list \<Rightarrow> path \<Rightarrow> (exn + path option) \<times> world" where
  "redact_docx ai_init w file_path suggestions output_path =
     (case read_docx w file_path of
        (Inl e, w1) \<Rightarrow> (Inl (wrap_error ''DOCX redaction failed: '' e), w1)
      | (Inr paragraphs, w1) \<Rightarrow>
          (case ai_init of
             Some e \<Rightarrow> (Inl (wrap_error ''DOCX redaction failed: '' e), w1)
           | None \<Rightarrow>
               (case write_container w1 output_path
                       (DocxFile (redact_paragraphs suggestions paragraphs)) of
                  (Inl e, w2) \<Rightarrow> (Inl (wrap_error ''DOCX redaction failed: '' e), w2)
                | (Inr u, w2) \<Rightarrow> (Inr (Some output_path), w2))))"

text \<open>\<open>fitz.open(p)\<close>\<close>

definition open_pdf :: "world \<Rightarrow> path \<Rightarrow> (exn + pystr list) \<times> world" where
  "open_pdf w p =
     (case files w p of
        Some (PdfFile pages) \<Rightarrow> (Inr pages, logged (EvRead p) w)
      | _ \<Rightarrow> (Inl (Exn LibraryError (str ''Failed to open file'')), logged (EvRead p) w))"

text \<open>
  \<open>_verify_redaction\<close>: the page texts joined by a blank must contain no accepted text; any
  exception counts as a failed verification.
\<close>

definition verify_redaction :: "world \<Rightarrow> path \<Rightarrow> suggestion list \<Rightarrow> bool \<times> world" where
  "verify_redaction w file_path suggestions =
     (case open_pdf w file_path of
        (Inl e, w1) \<Rightarrow> (False, w1)
      | (Inr pages, w1) \<Rightarrow>
          (\<not> list_ex (\<lambda>s. py_in (stext s) (py_join (str '' '') pages)) suggestions, w1))"

text \<open>
  The handler of \<open>_redact_pdf\<close>:
  \<^verbatim>\<open>
  except Exception as e:
      if os.path.exists(output_path):
          os.remove(output_path)
      raise RuntimeError(f"PDF redaction failed: {str(e)}")
  \<close>
\<close>

definition pdf_handler :: "exn \<Rightarrow> world \<Rightarrow> path \<Rightarrow> (exn + path option) \<times> world" where
  "pdf_handler e w output_path =
     (case path_exists w output_path of
        (True, w1) \<Rightarrow> (Inl (wrap_error ''PDF redaction failed: '' e), remove_file w1 output_path)
      | (False, w1) \<Rightarrow> (Inl (wrap_error ''PDF redaction failed: '' e), w1))"

text \<open>
  \<open>_redact_pdf\<close>. What PyMuPDF's search, redaction annotations and \<open>apply_redactions\<close>
  make of the pages is the library's business: \<open>fitz_redact pages texts\<close> is the page
  texts of the document that is saved, or the exception the library raised.
\<close>

definition redact_pdf ::
  "(pystr list \<Rightarrow> pystr list \<Rightarrow> exn + pystr list) \<Rightarrow>
   world \<Rightarrow> path \<Rightarrow> suggestion list \<Rightarrow> path \<Rightarrow> (exn + path option) \<times> world" where
  "redact_pdf fitz_redact w file_path suggestions output_path =
     (case open_pdf w file_path of
        (Inl e, w1) \<Rightarrow> pdf_handler e w1 output_path
      | (Inr pages, w1) \<Rightarrow>
          (case fitz_redact pages (map stext suggestions) of
             Inl e \<Rightarrow> pdf_handler e w1 output_path
           | Inr pages' \<Rightarrow>
               (case write_container w1 output_path (PdfFile pages') of
                  (Inl e, w2) \<Rightarrow> pdf_handler e w2 output_path
                | (Inr u, w2) \<Rightarrow>
                    (case verify_redaction w2 output_path suggestions of
                       (ok, w3) \<Rightarrow> (Inr (if ok then Some output_path else None), w3)))))"

text \<open>
  \<open>os.path.splitext\<close> (POSIX): the extension starts at the last dot of the last path
  component, unless that component has only dots before it.
\<close>

definition rfind_char :: "nat \<Rightarrow> pystr \<Rightarrow> int" where
  "rfind_char c p = fold (\<lambda>(i, x) r. if x = c then int i else r) (enumerate 0 p) (- 1)"

definition splitext :: "path \<Rightarrow> pystr \<times> pystr" where
  "splitext p =
     (let sepIndex = rfind_char 47 p; dotIndex = rfind_char 46 p
      in if sepIndex < dotIndex \<and>
            list_ex (\<lambda>c. c \<noteq> 46)
              (take (nat (dotIndex - (sepIndex + 1))) (drop (nat (sepIndex + 1)) p))
         then (take (nat dotIndex) p, drop (nat dotIndex) p)
         else (p, []))"

text \<open>
  \<open>redact_document\<close>. The parameters are the library behaviour the sources do not hold:
  \<open>lower\<close> (\<open>str.lower\<close>), \<open>fitz_redact\<close> and \<open>ai_init\<close>.
\<close>

definition redact_document ::
  "(pystr \<Rightarrow> pystr) \<Rightarrow> (pystr list \<Rightarrow> pystr list \<Rightarrow> exn + pystr list) \<Rightarrow> exn option \<Rightarrow>
   world \<Rightarrow> path \<Rightarrow> suggestion list \<Rightarrow> path \<Rightarrow> (exn + path option) \<times> world" where
  "redact_document lower fitz_redact ai_init w file_path suggestions output_path =
     (if suggestions = [] then (Inl (Exn ValueError (str ''No redaction suggestions provided'')), w)
      else
        (let file_extension = py_replace (lower (snd (splitext file_path))) (str ''.'') [];
             attempt =
               (if file_extension = str ''pdf''
                  then Some (redact_pdf fitz_redact w file_path suggestions output_path)
                else if file_extension = str ''docx''
                  then Some (redact_docx ai_init w file_path suggestions output_path)
                else if file_extension = str ''txt''
                  then Some (redact_text lower w file_path suggestions output_path)
                else None)
         in case attempt of
              None \<Rightarrow>
                (Inl (Exn ValueError (str ''Unsupported file format: '' @ file_extension)), w)
            | Some (Inl e, w') \<Rightarrow> (Inl (wrap_error ''Document redaction failed: '' e), w')
            | Some (Inr r, w') \<Rightarrow> (Inr r, w')))"

text \<open>\<open>FileHandler._extract_plain_text\<close> and \<open>FileHandler._extract_docx_text\<close>\<close>

definition extract_plain_text :: "world \<Rightarrow> path \<Rightarrow> exn + pystr" where
  "extract_plain_text w file_path =
     (case fst (read_text w file_path) of
        Inl e \<Rightarrow> Inl (wrap_error ''Text file extraction failed: '' e)
      | Inr s \<Rightarrow> Inr s)"

definition extract_docx_text :: "world \<Rightarrow> path \<Rightarrow> exn + pystr" where
  "extract_docx_text w file_path =
     (case fst (read_docx w file_path) of
        Inl e \<Rightarrow> Inl (wrap_error ''DOCX text extraction failed: '' e)
      | Inr paragraphs \<Rightarrow> Inr (py_join [10] (map paragraph_text paragraphs)))"

text \<open>
  The check of \<open>_verify_redaction\<close> on a text: no accepted text occurs in it.
\<close>

definition verified_text :: "pystr \<Rightarrow> suggestion list \<Rightarrow> bool" where
  "verified_text t suggestions = (\<not> list_ex (\<lambda>s. py_in (stext s) t) suggestions)"


section \<open>Specification vocabulary for the text applier\<close>

text \<open>
  \<open>str.lower\<close> on ASCII letters, where it agrees with Python; it stands for the parameter
  \<open>lower\<close> in concrete runs.
\<close>

definition ascii_lower :: "pystr \<Rightarrow> pystr" where
  "ascii_lower s = map (\<lambda>c. if 65 \<le> c \<and> c \<le> 90 then c + 32 else c) s"

text \<open>The text \<open>t\<close> occurs in \<open>content\<close> at offset \<open>p\<close>.\<close>

definition occurs_at :: "pystr \<Rightarrow> pystr \<Rightarrow> nat \<Rightarrow> bool" where
  "occurs_at content t p = (p \<le> length content \<and> prefix t (drop p content))"

text \<open>Two spans overlap when they share a character position.\<close>

definition overlap :: "redaction \<Rightarrow> redaction \<Rightarrow> bool" where
  "overlap a b = (max (fst a) (fst b) < min (fst (snd a)) (fst (snd b)))"

text \<open>
  A list of spans that lie inside the first \<open>n\<close> characters, each one ending where the one
  before it in the list starts, or further left: descending and pairwise disjoint.
\<close>

fun desc_chain :: "nat \<Rightarrow> redaction list \<Rightarrow> bool" where
  "desc_chain n [] = True"
| "desc_chain n ((s, e, r) # rs) = (s \<le> e \<and> e \<le> n \<and> desc_chain s rs)"

text \<open>
  The text in which each span of such a list is replaced by its replacement and every
  character outside the spans is kept.
\<close>

fun rewritten :: "redaction list \<Rightarrow> pystr \<Rightarrow> pystr" where
  "rewritten [] c = c"
| "rewritten ((s, e, r) # rs) c = rewritten rs (take s c) @ r @ drop e c"

section \<open>Column detection: \<open>AdvancedPDFTextExtractor._detect_columns\<close>\<close>

text \<open>
  A word of pdfplumber with the coordinates the layout analysis reads. Coordinates are
  floats in the source and exact reals here; the function only compares, takes minima and
  maxima of them, and hands them to the clustering library.
\<close>

record pword =
  wtext :: pystr
  x0 :: real
  x1 :: real
  top :: real
  bottom :: real

record column =
  x_range :: "real \<times> real"
  cwords :: "pword list"

text \<open>
  The clustering library is a parameter: \<open>kmeans n xs\<close> is
  \<open>KMeans(n_clusters=n, random_state=42).fit_predict(xs)\<close>, the label of every point or the
  exception raised, and \<open>silhouette xs labels\<close> is \<open>silhouette_score(xs, labels)\<close>.
\<close>

type_synonym kmeans_fn = "nat \<Rightarrow> real list \<Rightarrow> exn + nat list"
type_synonym silhouette_fn = "real list \<Rightarrow> nat list \<Rightarrow> exn + real"

text \<open>
  One round of
  \<^verbatim>\<open>
  for n in range(1, min(max_columns + 1, len(x_coords))):
      if n > 1:
          cluster_labels = KMeans(n_clusters=n, random_state=42).fit_predict(x_coords)
          score = silhouette_score(x_coords, cluster_labels)
          if score > best_score:
              best_score = score
              best_n_clusters = n
  \<close>
  on the pair \<open>(best_n_clusters, best_score)\<close>; an exception ends the loop.
\<close>

definition score_step ::
  "kmeans_fn \<Rightarrow> silhouette_fn \<Rightarrow> real list \<Rightarrow> nat \<Rightarrow> exn + nat \<times> real \<Rightarrow> exn + nat \<times> real" where
  "score_step kmeans silhouette xs n st =
     (case st of
        Inl e \<Rightarrow> Inl e
      | Inr (best_n_clusters, best_score) \<Rightarrow>
          if 1 < n then
            (case kmeans n xs of
               Inl e \<Rightarrow> Inl e
             | Inr cluster_labels \<Rightarrow>
                 (case silhouette xs cluster_labels of
                    Inl e \<Rightarrow> Inl e
                  | Inr score \<Rightarrow>
                      if best_score < score then Inr (n, score)
                      else Inr (best_n_clusters, best_score)))
          else Inr (best_n_clusters, best_score))"

definition best_clusters ::
  "kmeans_fn \<Rightarrow> silhouette_fn \<Rightarrow> real list \<Rightarrow> nat \<Rightarrow> exn + nat \<times> real" where
  "best_clusters kmeans silhouette xs max_columns =
     fold (score_step kmeans silhouette xs) [1..<min (max_columns + 1) (length xs)] (Inr (1, - 1))"

text \<open>
  \<^verbatim>\<open>
  for cluster in range(best_n_clusters):
      cluster_words = [word for word, label in zip(words, cluster_labels) if label == cluster]
      if cluster_words:
          columns.append({'x_range': (min(x0 ...), max(x1 ...)), 'words': cluster_words})
  \<close>
\<close>

definition cluster_words :: "pword list \<Rightarrow> nat list \<Rightarrow> nat \<Rightarrow> pword list" where
  "cluster_words ws labels cluster = map fst (filter (\<lambda>(w, l). l = cluster) (zip ws labels))"

definition make_column :: "pword list \<Rightarrow> column" where
  "make_column cws = \<lparr>x_range = (Min (set (map x0 cws)), Max (set (map x1 cws))), cwords = cws\<rparr>"

definition group_columns :: "pword list \<Rightarrow> nat list \<Rightarrow> nat \<Rightarrow> column list" where
  "group_columns ws labels best_n_clusters =
     concat (map (\<lambda>cluster. if cluster_words ws labels cluster \<noteq> []
                             then [make_column (cluster_words ws labels cluster)] else [])
                 [0..<best_n_clusters])"

text \<open>\<open>_detect_columns\<close>: every exception of the \<open>try\<close> block gives the empty list.\<close>

definition detect_columns ::
  "kmeans_fn \<Rightarrow> silhouette_fn \<Rightarrow> pword list \<Rightarrow> nat \<Rightarrow> column list" where
  "detect_columns kmeans silhouette ws max_columns =
     (if ws = [] then []
      else
        (case best_clusters kmeans silhouette (map x0 ws) max_columns of
           Inl e \<Rightarrow> []
         | Inr (best_n_clusters, best_score) \<Rightarrow>
             (case kmeans best_n_clusters (map x0 ws) of
                Inl e \<Rightarrow> []
              | Inr cluster_labels \<Rightarrow> group_columns ws cluster_labels best_n_clusters)))"

text \<open>
  scikit-learn's \<open>silhouette_score\<close> on one-dimensional points by its documented
  definition, in exact arithmetic: with \<open>a\<close> the mean distance of a point to the other
  points of its cluster and \<open>b\<close> the least mean distance to the points of another cluster,
  the point scores \<open>(b - a) / max a b\<close> (0 when it is alone in its cluster), and the score
  is the mean over the points. The library raises \<open>ValueError\<close> unless the number of
  distinct labels is between 2 and the number of points minus 1. It instantiates the
  parameter \<open>silhouette\<close> in concrete runs.
\<close>

definition mean :: "real list \<Rightarrow> real" where
  "mean vs = sum_list vs / real (length vs)"

definition silhouette_sample :: "(nat \<times> real \<times> nat) list \<Rightarrow> nat list \<Rightarrow> nat \<times> real \<times> nat \<Rightarrow> real" where
  "silhouette_sample pts labels pt =
     (case pt of (i, x, l) \<Rightarrow>
        (let own = map (\<lambda>(j, y, m). \<bar>x - y\<bar>) (filter (\<lambda>(j, y, m). j \<noteq> i \<and> m = l) pts);
             others = map (\<lambda>c. mean (map (\<lambda>(j, y, m). \<bar>x - y\<bar>) (filter (\<lambda>(j, y, m). m = c) pts)))
                          (filter (\<lambda>c. c \<noteq> l) (remdups labels))
         in if own = [] then 0
            else (let a = mean own; b = Min (set others)
                  in if max a b = 0 then 0 else (b - a) / max a b)))"

definition silhouette_score :: silhouette_fn where
  "silhouette_score xs labels =
     (let n_labels = length (remdups labels); pts = enumerate 0 (zip xs labels)
      in if 1 < n_labels \<and> n_labels < length xs
         then Inr (mean (map (silhouette_sample pts labels) pts))
         else Inl (Exn ValueError (str ''Number of labels is out of range'')))"

section \<open>Input validation: \<open>FileHandler.validate_file\<close>\<close>

definition MIME_TYPE_MAPPING :: "(pystr \<times> pystr \<times> pystr list) list" where
  "MIME_TYPE_MAPPING =
     [(str ''application/pdf'', str ''pdf'', [str ''.pdf'']),
      (str ''application/vnd.openxmlformats-officedocument.wordprocessingml.document'',
         str ''docx'', [str ''.docx'', str ''.doc'']),
      (str ''text/plain'', str ''txt'', [str ''.txt'', str ''.text'']),
      (str ''application/rtf'', str ''rtf'', [str ''.rtf''])]"

definition valid_extensions :: "pystr list" where
  "valid_extensions = concat (map (\<lambda>mime_info. snd (snd mime_info)) MIME_TYPE_MAPPING)"

text \<open>
  The file system as validation sees it: the size in bytes of every path that exists.
  \<open>guess_type\<close> is \<open>mimetypes.guess_type(p)[0]\<close>, a table lookup of the standard library,
  and a parameter here. The size test divides by \<open>1024 * 1024\<close>, a power of two, so the
  float quotient compares with 100 as the exact one does.
\<close>

definition validate_file ::
  "(path \<Rightarrow> pystr option) \<Rightarrow> (pystr \<Rightarrow> pystr) \<Rightarrow> (path \<rightharpoonup> nat) \<Rightarrow> path \<Rightarrow> exn + bool" where
  "validate_file guess_type lower fs file_path =
     (case fs file_path of
        None \<Rightarrow> Inl (Exn FileNotFoundError (str ''File does not exist''))
      | Some nbytes \<Rightarrow>
          if 100 < real nbytes / (1024 * 1024)
          then Inl (Exn ValueError (str ''File exceeds 100MB limit''))
          else
            (let file_mime = guess_type file_path
             in if file_mime = None \<or> file_mime = Some [] \<or>
                   the file_mime \<notin> set (map fst MIME_TYPE_MAPPING)
                then (let ext = lower (snd (splitext file_path))
                      in if ext \<notin> set valid_extensions
                         then Inl (Exn ValueError (str ''Unsupported file type: '' @ ext))
                         else Inr True)
                else Inr True))"


section \<open>Concrete runs of the column detector\<close>

text \<open>
  A clustering for concrete runs: one cluster for \<open>n = 1\<close> and, for a larger \<open>n\<close>, the
  points left of \<open>t\<close> against the rest. On points that take one value it returns one
  label, and on points that take two values, one on each side of \<open>t\<close>, the two groups
  k-means ends in.
\<close>

definition split_at :: "real \<Rightarrow> kmeans_fn" where
  "split_at t n xs = Inr (map (\<lambda>x. if n = 1 \<or> x < t then 0 else 1) xs)"

definition pw :: "real \<Rightarrow> real \<Rightarrow> pword" where
  "pw a b = \<lparr>wtext = str ''w'', x0 = a, x1 = b, top = 0, bottom = 10\<rparr>"




text \<open>A request of the kind \<open>PII\<close> for a text, for concrete runs.\<close>

definition pii_request :: "string \<Rightarrow> suggestion" where
  "pii_request s = \<lparr>stext = str s, stype = str ''PII'', confidence = 90, reason = []\<rparr>"

section \<open>Evaluation rules\<close>

lemmas text_applier_eval =
  redact_content_def sort_suggestions_def collect_redactions_def find_occurrences.simps
  py_find_def sort_redactions_def apply_redactions_def set_slice_def REDACTED_def

lemmas dispatch_eval =
  redact_document_def splitext_def rfind_char_def py_replace_def ascii_lower_def Let_def

section \<open>The empty request list\<close>

text \<open>
  C10. With an empty suggestion list \<open>redact_document\<close> raises \<open>ValueError\<close> at once, for
  every file path and output path and whatever the libraries would do: the world, with its
  files and its log of file operations, is returned as it was, so no file has been opened,
  read or written.
\<close>

theorem redact_document_empty_suggestions:
  "redact_document lower fitz_redact ai_init w file_path [] output_path =
     (Inl (Exn ValueError (str ''No redaction suggestions provided'')), w)"
  by (simp add: redact_document_def)

theorem redact_document_empty_suggestions_witness:
  "redact_document ascii_lower (\<lambda>pages texts. Inr pages) None
     \<lparr>files = [str ''in.txt'' \<mapsto> TextFile (str ''TED called'')], io_log = [], write_fault = None\<rparr>
     (str ''in.txt'') [] (str ''out.txt'') =
   (Inl (Exn ValueError (str ''No redaction suggestions provided'')),
    \<lparr>files = [str ''in.txt'' \<mapsto> TextFile (str ''TED called'')], io_log = [], write_fault = None\<rparr>)"
  using redact_document_empty_suggestions
    [of ascii_lower "\<lambda>pages texts. Inr pages" None
        "\<lparr>files = [str ''in.txt'' \<mapsto> TextFile (str ''TED called'')], io_log = [], write_fault = None\<rparr>"
        "str ''in.txt''" "str ''out.txt''"]
  by simp


section \<open>The text applier on the specification's scenario\<close>




section \<open>The Word applier on the specification's scenario\<close>

lemma redact_paragraph_jane:
  assumes "paragraph_text p = str ''Contact: Jane Roe''"
  shows "redact_paragraph (str ''Jane Roe'') p =
     map clear_run p @
       [Run (new_run (str ''Contact: '' @ FILLER @ FILLER @ FILLER @ FILLER @ FILLER @ FILLER @ FILLER @ FILLER))]"
  using assms
  by (simp add: redact_paragraph_def py_in_def py_find_def py_replace_def Let_def)

lemma paragraph_text_cleared_runs: "paragraph_text (map clear_run (map Run rs)) = []"
  by (induction rs) (simp_all add: paragraph_text_def)

text \<open>
  On a paragraph that reads \<open>Contact: Jane Roe\<close> and holds runs only, however the text is
  split into them, the applier does what the scenario says: the old runs are cleared, one
  run is added, no run contains \<open>Jane Roe\<close>, and the text extracted again from the saved
  document does not contain it.
\<close>

lemma docx_jane_roe_runs_only:
  assumes "paragraph_text (map Run rs) = str ''Contact: Jane Roe''"
    and "files w file_path = Some (DocxFile [map Run rs])"
    and "write_fault w = None"
    and "stext s = str ''Jane Roe''"
  shows "\<exists>p' w'. redact_docx None w file_path [s] output_path = (Inr (Some output_path), w') \<and>
     files w' output_path = Some (DocxFile [p']) \<and>
     (\<forall>r\<in>set (paragraph_runs p'). \<not> py_in (str ''Jane Roe'') (run_text r)) \<and>
     take (length rs) p' = map clear_run (map Run rs) \<and>
     length p' = Suc (length rs) \<and>
     (\<exists>t. extract_docx_text w' output_path = Inr t \<and> \<not> py_in (str ''Jane Roe'') t)"
proof -
  let ?new = "new_run (str ''Contact: '' @ FILLER @ FILLER @ FILLER @ FILLER @ FILLER @ FILLER @ FILLER @ FILLER)"
  let ?p' = "map clear_run (map Run rs) @ [Run ?new]"
  let ?w' = "logged (EvWrite output_path)
      ((logged (EvRead file_path) w)\<lparr>files := (files w)(output_path \<mapsto> DocxFile [?p'])\<rparr>)"
  have ps: "redact_paragraphs [s] [map Run rs] = [?p']"
    using assms(4) redact_paragraph_jane[OF assms(1)] by (simp add: redact_paragraphs_def)
  have run: "redact_docx None w file_path [s] output_path = (Inr (Some output_path), ?w')"
    using assms(2,3) ps by (simp add: redact_docx_def read_docx_def write_container_def logged_def)
  have stored: "files ?w' output_path = Some (DocxFile [?p'])"
    by (simp add: logged_def)
  have new_clean: "\<not> py_in (str ''Jane Roe'') (run_text ?new)"
    by (simp add: new_run_def FILLER_def py_in_def py_find_def)
  have empty_clean: "\<not> py_in (str ''Jane Roe'') []"
    by (simp add: py_in_def py_find_def)
  have old_runs: "\<forall>r\<in>set (paragraph_runs (map clear_run (map Run rs) @ q)).
        r \<in> set (paragraph_runs q) \<or> run_text r = []" for q
    by (induction rs) auto
  have runs: "\<forall>r\<in>set (paragraph_runs ?p'). \<not> py_in (str ''Jane Roe'') (run_text r)"
    using old_runs [of "[Run ?new]"] new_clean empty_clean by auto
  have ptext: "paragraph_text ?p' = run_text ?new"
    using paragraph_text_cleared_runs [of rs] by (simp add: paragraph_text_def)
  have reread: "extract_docx_text ?w' output_path = Inr (run_text ?new)"
    using ptext by (simp add: extract_docx_text_def read_docx_def logged_def)
  show ?thesis
    using run stored runs reread new_clean by (intro exI[of _ ?p'] exI[of _ ?w']) simp
qed

text \<open>
  C5 fails when part of the paragraph's text is a hyperlink. The paragraph reads
  \<open>Contact: Jane Roe\<close>, with \<open>Contact: \<close> in a run and \<open>Jane Roe\<close> in a hyperlink: the match
  is found in \<open>paragraph.text\<close>, the loop clears the run, the hyperlink keeps its text, and
  the new run is added after it. No run contains \<open>Jane Roe\<close>, but the saved paragraph does,
  and so does the text extracted again from the saved document.
\<close>

theorem redact_docx_keeps_hyperlink_text:
  "paragraph_text [Run (new_run (str ''Contact: '')), Hyperlink (str ''Jane Roe'')]
     = str ''Contact: Jane Roe'' \<and>
   redact_document ascii_lower fitz_redact None
     \<lparr>files = [str ''in.docx'' \<mapsto>
          DocxFile [[Run (new_run (str ''Contact: '')), Hyperlink (str ''Jane Roe'')]]],
        io_log = [], write_fault = None\<rparr>
     (str ''in.docx'')
     [\<lparr>stext = str ''Jane Roe'', stype = str ''PII'', confidence = 90, reason = []\<rparr>]
     (str ''out.docx'')
   = (Inr (Some (str ''out.docx'')),
      \<lparr>files = [str ''in.docx'' \<mapsto>
            DocxFile [[Run (new_run (str ''Contact: '')), Hyperlink (str ''Jane Roe'')]],
          str ''out.docx'' \<mapsto>
            DocxFile [[Run (new_run []), Hyperlink (str ''Jane Roe''),
               Run (new_run (str ''Contact: '' @ FILLER @ FILLER @ FILLER @ FILLER @ FILLER
                              @ FILLER @ FILLER @ FILLER))]]],
         io_log = [EvRead (str ''in.docx''), EvWrite (str ''out.docx'')],
         write_fault = None\<rparr>) \<and>
   extract_docx_text
      \<lparr>files = [str ''out.docx'' \<mapsto>
            DocxFile [[Run (new_run []), Hyperlink (str ''Jane Roe''),
               Run (new_run (str ''Contact: '' @ FILLER @ FILLER @ FILLER @ FILLER @ FILLER
                              @ FILLER @ FILLER @ FILLER))]]],
         io_log = [], write_fault = None\<rparr>
      (str ''out.docx'')
   = Inr (str ''Jane RoeContact: '' @ FILLER @ FILLER @ FILLER @ FILLER @ FILLER
            @ FILLER @ FILLER @ FILLER) \<and>
   py_in (str ''Jane Roe'')
     (str ''Jane RoeContact: '' @ FILLER @ FILLER @ FILLER @ FILLER @ FILLER
            @ FILLER @ FILLER @ FILLER)"
  by (simp add: dispatch_eval redact_docx_def read_docx_def write_container_def logged_def
        redact_paragraphs_def redact_paragraph_def paragraph_text_def new_run_def
        extract_docx_text_def py_in_def py_find_def)

section \<open>Verification and clean-up across the appliers\<close>

text \<open>
  What the PDF applier does and the other two do not: after any exception no file is left
  at the output path, and a path is returned only for a saved file that passed the check.
\<close>

lemma pdf_handler_removes:
  "pdf_handler e w out = (r, w') \<Longrightarrow> files w' out = None \<and> (\<exists>e'. r = Inl e')"
  by (auto simp: pdf_handler_def path_exists_def remove_file_def logged_def split: bool.splits)

lemma redact_pdf_failure_removes_output:
  "redact_pdf fitz_redact w file_path suggestions output_path = (Inl e, w') \<Longrightarrow>
     files w' output_path = None"
  by (auto simp: redact_pdf_def split: prod.splits sum.splits dest: pdf_handler_removes)

lemma redact_pdf_returns_verified:
  assumes "redact_pdf fitz_redact w file_path suggestions output_path = (Inr (Some p), w')"
  shows "p = output_path \<and>
     (\<exists>pages. files w' output_path = Some (PdfFile pages) \<and>
        verified_text (py_join (str '' '') pages) suggestions)"
  using assms
  by (auto simp: redact_pdf_def verify_redaction_def open_pdf_def write_container_def logged_def
        verified_text_def
      split: prod.splits sum.splits if_splits option.splits fdata.splits
      dest: pdf_handler_removes)

text \<open>
  C1 fails on the text path. The file \<open>in.txt\<close> reads \<open>TED called\<close> and the accepted text
  is \<open>TED\<close>: \<open>redact_document\<close> returns the output path after one read and one write, no
  verification has run, and the written text \<open>[REDACTED] called\<close> still contains the
  accepted text (inside the marker), so the check of the verifier fails on it.
\<close>

theorem redact_text_returns_unverified:
  "redact_document ascii_lower fitz_redact ai_init
     \<lparr>files = [str ''in.txt'' \<mapsto> TextFile (str ''TED called'')], io_log = [], write_fault = None\<rparr>
     (str ''in.txt'')
     [\<lparr>stext = str ''TED'', stype = str ''PII'', confidence = 90, reason = []\<rparr>]
     (str ''out.txt'')
   = (Inr (Some (str ''out.txt'')),
      \<lparr>files = [str ''in.txt'' \<mapsto> TextFile (str ''TED called''),
                 str ''out.txt'' \<mapsto> TextFile (str ''[REDACTED] called'')],
         io_log = [EvRead (str ''in.txt''), EvWrite (str ''out.txt'')], write_fault = None\<rparr>) \<and>
   \<not> verified_text (str ''[REDACTED] called'')
         [\<lparr>stext = str ''TED'', stype = str ''PII'', confidence = 90, reason = []\<rparr>]"
  by (simp add: dispatch_eval redact_text_def read_text_def write_text_def logged_def
        text_applier_eval verified_text_def py_in_def)

text \<open>
  C4 fails on the text path. The device takes four more characters: the write of the
  output raises, \<open>redact_document\<close> raises \<open>RuntimeError\<close>, and the output path holds the
  four characters that were written; nothing removes them.
\<close>

theorem redact_text_leaves_partial_output:
  "redact_document ascii_lower fitz_redact ai_init
     \<lparr>files = [str ''in.txt'' \<mapsto> TextFile (str ''TED called'')], io_log = [], write_fault = Some 4\<rparr>
     (str ''in.txt'')
     [\<lparr>stext = str ''called'', stype = str ''PII'', confidence = 90, reason = []\<rparr>]
     (str ''out.txt'')
   = (Inl (Exn RuntimeError
        (str ''Document redaction failed: Text redaction failed: No space left on device'')),
      \<lparr>files = [str ''in.txt'' \<mapsto> TextFile (str ''TED called''),
                 str ''out.txt'' \<mapsto> TextFile (str ''TED '')],
         io_log = [EvRead (str ''in.txt''), EvWrite (str ''out.txt'')], write_fault = Some 4\<rparr>)"
  by (simp add: dispatch_eval redact_text_def read_text_def write_text_def logged_def
        text_applier_eval wrap_error_def)



section \<open>Column detection: what the grouping guarantees\<close>








lemma upt_small: "[1..<2] = [1]" "[1..<3] = [1, 2]" "[1..<4] = [1, 2, 3]" "[0..<1] = [0]" "[0..<2] = [0, 1]"
  by (simp_all add: upt_rec)

lemmas columns_eval =
  detect_columns_def best_clusters_def score_step_def pw_def split_at_def upt_small
  silhouette_score_def silhouette_sample_def mean_def Let_def group_columns_def
  cluster_words_def make_column_def

lemma fold_score_step_error:
  "fold (score_step kmeans silhouette xs) ns (Inl e) = Inl e"
  by (induction ns) (simp_all add: score_step_def)

lemma detect_columns_scoring_error:
  assumes "3 \<le> length ws" "kmeans 2 (map x0 ws) = Inr labels"
    "silhouette (map x0 ws) labels = Inl e"
  shows "detect_columns kmeans silhouette ws 3 = []"
proof -
  from assms(1) have ne: "ws \<noteq> []" by auto
  have two: "Suc 1 = (2::nat)" and three: "Suc 2 = (3::nat)" by simp_all
  have "[1..<min 4 (length ws)] = 1 # [Suc 1..<min 4 (length ws)]"
    using assms(1) by (intro upt_conv_Cons) simp
  moreover have "[2..<min 4 (length ws)] = 2 # [Suc 2..<min 4 (length ws)]"
    using assms(1) by (intro upt_conv_Cons) simp
  ultimately have "[1..<min 4 (length ws)] = 1 # 2 # [3..<min 4 (length ws)]"
    by (simp only: two three)
  then have "[1..<min (3 + 1) (length (map x0 ws))] = 1 # 2 # [3..<min 4 (length ws)]"
    by simp
  then have "best_clusters kmeans silhouette (map x0 ws) 3 = Inl e"
    using assms(2,3) by (simp add: best_clusters_def score_step_def fold_score_step_error)
  with ne show ?thesis by (simp add: detect_columns_def)
qed














text \<open>
  C6 fails on the degenerate input it names. Three words with the same \<open>x0\<close>: the loop
  asks for two clusters, the clustering finds one label, \<open>silhouette_score\<close> raises on a
  single label, and the handler returns no column at all instead of the single column.
  The lemma \<open>detect_columns_scoring_error\<close> above says so for every clustering and every
  scoring that fails at two clusters on three or more words.
\<close>

theorem detect_columns_same_x0:
  "detect_columns (split_at 100) silhouette_score [pw 72 100, pw 72 120, pw 72 90] 3 = []"
  by (simp add: columns_eval)

section \<open>Input validation\<close>

text \<open>
  C9. A file that exists and is larger than 100 MiB (\<open>104857600\<close> bytes) is rejected with
  the too-large \<open>ValueError\<close>, before its type is looked at; a file that exists, is not
  larger, and is supported (its lower-cased extension is one of the valid extensions, or
  its guessed MIME type is in the table) is valid; a path that does not exist raises
  \<open>FileNotFoundError\<close>.
\<close>

theorem validate_file_size_and_existence:
  "(fs p = Some n \<and> 100 * 1024 * 1024 < n \<longrightarrow> validate_file gt lower fs p = Inl (Exn ValueError (str ''File exceeds 100MB limit'')))
  \<and> (fs p = Some n \<and> n \<le> 100 * 1024 * 1024 \<and>
       (lower (snd (splitext p)) \<in> set valid_extensions \<or> (\<exists>m. gt p = Some m \<and> m \<in> set (map fst MIME_TYPE_MAPPING)))
       \<longrightarrow> validate_file gt lower fs p = Inr True)
  \<and> (fs p = None \<longrightarrow> validate_file gt lower fs p = Inl (Exn FileNotFoundError (str ''File does not exist'')))"
proof -
  have big: "100 < real n / (1024 * 1024) \<longleftrightarrow> 100 * 1024 * 1024 < n"
  proof -
    have "100 < real n / (1024 * 1024) \<longleftrightarrow> 100 * (1024 * 1024) < real n"
      by (simp add: less_divide_eq)
    also have "\<dots> \<longleftrightarrow> real (100 * 1024 * 1024) < real n" by simp
    also have "\<dots> \<longleftrightarrow> 100 * 1024 * 1024 < n" by (simp only: of_nat_less_iff)
    finally show ?thesis .
  qed
  have nonempty: "m \<noteq> []" if "m \<in> set (map fst MIME_TYPE_MAPPING)" for m
    using that by (auto simp: MIME_TYPE_MAPPING_def)
  have ok: "validate_file gt lower fs p = Inr True"
    if "fs p = Some n" "n \<le> 100 * 1024 * 1024"
       "lower (snd (splitext p)) \<in> set valid_extensions \<or>
        (\<exists>m. gt p = Some m \<and> m \<in> set (map fst MIME_TYPE_MAPPING))"
  proof -
    from that(2) have small: "\<not> 100 < real n / (1024 * 1024)" by (simp add: big)
    from that(3) show ?thesis
    proof
      assume "lower (snd (splitext p)) \<in> set valid_extensions"
      with that(1) small show ?thesis by (simp add: validate_file_def Let_def)
    next
      assume "\<exists>m. gt p = Some m \<and> m \<in> set (map fst MIME_TYPE_MAPPING)"
      then obtain m where m: "gt p = Some m" "m \<in> set (map fst MIME_TYPE_MAPPING)" by blast
      with nonempty have "m \<noteq> []" by blast
      with that(1) small m show ?thesis by (simp add: validate_file_def Let_def)
    qed
  qed
  show ?thesis
    using ok by (auto simp: validate_file_def big)
qed

theorem validate_file_size_and_existence_witness:
  "validate_file (\<lambda>p. None) ascii_lower [str ''big.pdf'' \<mapsto> 104857601] (str ''big.pdf'')
      = Inl (Exn ValueError (str ''File exceeds 100MB limit'')) \<and>
   validate_file (\<lambda>p. None) ascii_lower [str ''a.PDF'' \<mapsto> 104857600] (str ''a.PDF'') = Inr True \<and>
   validate_file (\<lambda>p. None) ascii_lower Map.empty (str ''a.pdf'')
      = Inl (Exn FileNotFoundError (str ''File does not exist''))"
proof -
  have ext: "ascii_lower (snd (splitext (str ''a.PDF''))) \<in> set valid_extensions"
    by (simp add: splitext_def rfind_char_def ascii_lower_def valid_extensions_def
          MIME_TYPE_MAPPING_def Let_def)
  from validate_file_size_and_existence
         [of "[str ''big.pdf'' \<mapsto> 104857601]" "str ''big.pdf''" 104857601 "\<lambda>p. None" ascii_lower]
       validate_file_size_and_existence
         [of "[str ''a.PDF'' \<mapsto> 104857600]" "str ''a.PDF''" 104857600 "\<lambda>p. None" ascii_lower]
       validate_file_size_and_existence
         [of Map.empty "str ''a.pdf''" 0 "\<lambda>p. None" ascii_lower]
       ext
  show ?thesis by simp
qed


section \<open>The text applier: spans, order and rewriting\<close>

lemma find_in_None: "find_in sub cs = None \<Longrightarrow> i \<le> length cs \<Longrightarrow> \<not> prefix sub (drop i cs)"
proof (induction cs arbitrary: i)
  case Nil
  then show ?case by (auto split: if_splits)
next
  case (Cons c cs)
  then show ?case by (cases i) (auto split: if_splits)
qed

lemma find_in_Some:
  "find_in sub cs = Some i \<Longrightarrow> i \<le> length cs \<and> prefix sub (drop i cs) \<and> (\<forall>j<i. \<not> prefix sub (drop j cs))"
proof (induction cs arbitrary: i)
  case Nil
  then show ?case by (auto split: if_splits)
next
  case (Cons c cs)
  show ?case
  proof (cases "prefix sub (c # cs)")
    case True
    with Cons.prems show ?thesis by simp
  next
    case False
    with Cons.prems obtain k where k: "find_in sub cs = Some k" "i = Suc k" by auto
    from Cons.IH[OF k(1)] have ih: "k \<le> length cs" "prefix sub (drop k cs)" "\<forall>j<k. \<not> prefix sub (drop j cs)"
      by auto
    have "\<not> prefix sub (drop j (c # cs))" if "j < i" for j
      using that False ih(3) k(2) by (cases j) auto
    with ih k show ?thesis by simp
  qed
qed

lemma py_find_None:
  "py_find s sub start = None \<Longrightarrow> start \<le> p \<Longrightarrow> \<not> occurs_at s sub p"
proof -
  assume a: "py_find s sub start = None" "start \<le> p"
  show ?thesis
  proof (cases "length s < start")
    case True
    with a show ?thesis by (simp add: occurs_at_def)
  next
    case False
    with a have "find_in sub (drop start s) = None" by (simp add: py_find_def)
    from find_in_None[OF this, of "p - start"] a(2) False show ?thesis
      by (auto simp: occurs_at_def)
  qed
qed

lemma py_find_Some:
  "py_find s sub start = Some pos \<Longrightarrow>
     start \<le> pos \<and> occurs_at s sub pos \<and> (\<forall>p. start \<le> p \<and> p < pos \<longrightarrow> \<not> occurs_at s sub p)"
proof -
  assume a: "py_find s sub start = Some pos"
  then obtain i where i: "find_in sub (drop start s) = Some i" "pos = start + i" "start \<le> length s"
    by (auto simp: py_find_def split: if_splits)
  from find_in_Some[OF i(1)] have f: "i \<le> length s - start" "prefix sub (drop (start + i) s)"
     "\<forall>j<i. \<not> prefix sub (drop (start + j) s)" by (auto simp: add.commute)
  have "\<not> occurs_at s sub p" if "start \<le> p" "p < pos" for p
  proof -
    from that i(2) have "p - start < i" by simp
    with f(3) have "\<not> prefix sub (drop (start + (p - start)) s)" by blast
    with that show ?thesis by (simp add: occurs_at_def)
  qed
  with f i show ?thesis by (auto simp: occurs_at_def)
qed

lemma set_find_occurrences:
  "set (find_occurrences content t start) =
     {(p, p + length t, REDACTED) | p. start \<le> p \<and> occurs_at content t p}"
proof (induction content t start rule: find_occurrences.induct)
  case (1 content t start)
  show ?case
  proof (cases "py_find content t start")
    case None
    then have "find_occurrences content t start = []" by (simp add: find_occurrences.simps)
    with py_find_None[OF None] show ?thesis by auto
  next
    case (Some pos)
    from py_find_Some[OF Some] have p: "start \<le> pos" "occurs_at content t pos"
      "\<And>p. start \<le> p \<Longrightarrow> p < pos \<Longrightarrow> \<not> occurs_at content t p" by auto
    have eq: "find_occurrences content t start =
       (pos, pos + length t, REDACTED) # find_occurrences content t (pos + 1)"
      using Some by (subst find_occurrences.simps) simp
    have "{(p, p + length t, REDACTED) | p. start \<le> p \<and> occurs_at content t p}
        = insert (pos, pos + length t, REDACTED) {(p, p + length t, REDACTED) | p. pos + 1 \<le> p \<and> occurs_at content t p}"
      (is "?A = insert ?x ?B")
    proof (intro set_eqI iffI)
      fix x assume "x \<in> ?A"
      then obtain q where q: "x = (q, q + length t, REDACTED)" "start \<le> q" "occurs_at content t q" by auto
      with p(3)[of q] have "pos \<le> q" by (meson not_le_imp_less)
      then show "x \<in> insert ?x ?B" using q by (cases "q = pos") auto
    next
      fix x assume "x \<in> insert ?x ?B"
      then show "x \<in> ?A" using p(1,2) by auto
    qed
    with 1[OF Some] eq show ?thesis by simp
  qed
qed

lemma sorted_wrt_find_occurrences:
  "sorted_wrt (<) (map fst (find_occurrences content t start))"
proof (induction content t start rule: find_occurrences.induct)
  case (1 content t start)
  show ?case
  proof (cases "py_find content t start")
    case None
    then show ?thesis by (simp add: find_occurrences.simps)
  next
    case (Some pos)
    have eq: "find_occurrences content t start =
       (pos, pos + length t, REDACTED) # find_occurrences content t (pos + 1)"
      using Some by (subst find_occurrences.simps) simp
    have "\<forall>x \<in> set (find_occurrences content t (pos + 1)). pos < fst x"
      by (auto simp: set_find_occurrences)
    with 1[OF Some] eq show ?thesis by simp
  qed
qed

lemma desc_chain_mono: "desc_chain n rs \<Longrightarrow> n \<le> m \<Longrightarrow> desc_chain m rs"
  by (cases rs) auto

lemma apply_redactions_append:
  "desc_chain (length xs) rs \<Longrightarrow> apply_redactions rs (xs @ ys) = apply_redactions rs xs @ ys"
proof (induction rs arbitrary: xs)
  case Nil
  then show ?case by (simp add: apply_redactions_def)
next
  case (Cons a rs)
  obtain s e r where a: "a = (s, e, r)" by (cases a)
  from Cons.prems a have b: "s \<le> e" "e \<le> length xs" "desc_chain s rs" by auto
  have sl: "set_slice (xs @ ys) s e r = set_slice xs s e r @ ys"
    using b by (simp add: set_slice_def max_def)
  have "s \<le> length (set_slice xs s e r)" using b by (simp add: set_slice_def)
  with b(3) have "desc_chain (length (set_slice xs s e r)) rs" by (rule desc_chain_mono)
  from Cons.IH[OF this] show ?case using a sl by (simp add: apply_redactions_def)
qed

lemma apply_redactions_rewritten:
  "desc_chain (length c) rs \<Longrightarrow> apply_redactions rs c = rewritten rs c"
proof (induction rs arbitrary: c)
  case Nil
  then show ?case by (simp add: apply_redactions_def)
next
  case (Cons a rs)
  obtain s e r where a: "a = (s, e, r)" by (cases a)
  from Cons.prems a have b: "s \<le> e" "e \<le> length c" "desc_chain s rs" by auto
  then have len: "length (take s c) = s" by simp
  have "apply_redactions (a # rs) c = apply_redactions rs (take s c @ (r @ drop e c))"
    using a b by (simp add: apply_redactions_def set_slice_def max_def)
  also have "\<dots> = apply_redactions rs (take s c) @ r @ drop e c"
    using b(3) len by (simp add: apply_redactions_append)
  also have "apply_redactions rs (take s c) = rewritten rs (take s c)"
    using Cons.IH[of "take s c"] b(3) len by simp
  finally show ?case using a by simp
qed


lemma set_collect_redactions:
  "set (collect_redactions content ss) =
     {(p, p + length t, REDACTED) | p t. t \<in> stext ` set ss \<and> occurs_at content t p}"
  by (auto simp: collect_redactions_def set_find_occurrences)

text \<open>
  What the text applier does on every input. The accepted texts are processed in the order
  of a sort by descending length and then by lower-cased text; the recorded spans are
  exactly the spans \<open>(p, p + len(t))\<close> of every offset \<open>p\<close> at which an accepted text \<open>t\<close>
  occurs, each with the replacement \<open>[REDACTED]\<close>; the spans are rewritten in the order of
  a sort by descending start offset; and when the spans in that order are pairwise
  disjoint (each ends where the one rewritten before it starts, or further left), the
  result is the document with every recorded span replaced by \<open>[REDACTED]\<close> and every
  other character kept.
\<close>

lemma text_applier_spans:
  "mset (sort_suggestions lower ss) = mset ss \<and>
   sorted_wrt (\<lambda>a b. length (stext b) < length (stext a) \<or>
                 (length (stext a) = length (stext b) \<and> lower (stext a) \<le> lower (stext b)))
     (sort_suggestions lower ss) \<and>
   set (collect_redactions content (sort_suggestions lower ss)) =
     {(p, p + length t, REDACTED) | p t. t \<in> stext ` set ss \<and> occurs_at content t p} \<and>
   mset (sort_redactions (collect_redactions content (sort_suggestions lower ss))) =
     mset (collect_redactions content (sort_suggestions lower ss)) \<and>
   sorted_wrt (\<lambda>a b. fst b \<le> fst a)
     (sort_redactions (collect_redactions content (sort_suggestions lower ss))) \<and>
   (desc_chain (length content)
      (sort_redactions (collect_redactions content (sort_suggestions lower ss))) \<longrightarrow>
    redact_content lower content ss =
      rewritten (sort_redactions (collect_redactions content (sort_suggestions lower ss))) content)"
proof -
  let ?key = "\<lambda>x. (- int (length (stext x)), lower (stext x))"
  have "sorted (map ?key (sort_suggestions lower ss))"
    by (simp add: sort_suggestions_def)
  then have order: "sorted_wrt (\<lambda>a b. ?key a \<le> ?key b) (sort_suggestions lower ss)"
    by (simp add: sorted_map)
  have a: "sorted_wrt (\<lambda>a b. length (stext b) < length (stext a) \<or>
                 (length (stext a) = length (stext b) \<and> lower (stext a) \<le> lower (stext b)))
     (sort_suggestions lower ss)"
    by (rule sorted_wrt_mono_rel [OF _ order]) (auto simp: less_eq_prod_def)
  have "sorted (map (\<lambda>r. - int (fst r))
          (sort_redactions (collect_redactions content (sort_suggestions lower ss))))"
    by (simp add: sort_redactions_def)
  then have "sorted_wrt (\<lambda>a b. - int (fst a) \<le> - int (fst b))
          (sort_redactions (collect_redactions content (sort_suggestions lower ss)))"
    by (simp add: sorted_map)
  then have b: "sorted_wrt (\<lambda>a b. fst b \<le> fst a)
          (sort_redactions (collect_redactions content (sort_suggestions lower ss)))"
    by (rule sorted_wrt_mono_rel [rotated]) simp
  have c: "set (collect_redactions content (sort_suggestions lower ss)) =
     {(p, p + length t, REDACTED) | p t. t \<in> stext ` set ss \<and> occurs_at content t p}"
    by (simp add: set_collect_redactions) (simp add: sort_suggestions_def)
  show ?thesis
    using a b c
    by (simp add: sort_suggestions_def sort_redactions_def redact_content_def
          apply_redactions_rewritten)
qed

text \<open>A run with disjoint spans: two accepted texts, three occurrences.\<close>

lemma text_applier_disjoint_spans_example:
  "desc_chain (length (str ''ab cd ab''))
     (sort_redactions (collect_redactions (str ''ab cd ab'')
        (sort_suggestions ascii_lower [pii_request ''cd'', pii_request ''ab'']))) \<and>
   redact_content ascii_lower (str ''ab cd ab'') [pii_request ''cd'', pii_request ''ab''] =
     str ''[REDACTED] [REDACTED] [REDACTED]''"
proof -
  have spans: "sort_redactions (collect_redactions (str ''ab cd ab'')
        (sort_suggestions ascii_lower [pii_request ''cd'', pii_request ''ab''])) =
      [(6, 8, REDACTED), (3, 5, REDACTED), (0, 2, REDACTED)]"
    by (simp add: text_applier_eval pii_request_def ascii_lower_def less_eq_prod_def)
  have chain: "desc_chain (length (str ''ab cd ab''))
     (sort_redactions (collect_redactions (str ''ab cd ab'')
        (sort_suggestions ascii_lower [pii_request ''cd'', pii_request ''ab''])))"
    unfolding spans by simp
  from text_applier_spans [of ascii_lower "[pii_request ''cd'', pii_request ''ab'']" "str ''ab cd ab''"] chain
  have "redact_content ascii_lower (str ''ab cd ab'') [pii_request ''cd'', pii_request ''ab''] =
      rewritten (sort_redactions (collect_redactions (str ''ab cd ab'')
        (sort_suggestions ascii_lower [pii_request ''cd'', pii_request ''ab'']))) (str ''ab cd ab'')"
    by blast
  then have "redact_content ascii_lower (str ''ab cd ab'') [pii_request ''cd'', pii_request ''ab''] =
      rewritten [(6, 8, REDACTED), (3, 5, REDACTED), (0, 2, REDACTED)] (str ''ab cd ab'')"
    unfolding spans .
  then have "redact_content ascii_lower (str ''ab cd ab'') [pii_request ''cd'', pii_request ''ab''] =
      str ''[REDACTED] [REDACTED] [REDACTED]''"
    by (simp add: REDACTED_def)
  with chain show ?thesis by blast
qed

text \<open>
  The order among equally long texts is by lower-cased text, as the sort key says: \<open>a\<close> is
  processed before \<open>B\<close> although \<open>B\<close> is the smaller string.
\<close>

lemma sort_suggestions_lower_key:
  "sort_suggestions ascii_lower [pii_request ''B'', pii_request ''a''] =
     [pii_request ''a'', pii_request ''B''] \<and>
   str ''B'' < str ''a''"
  by (simp add: text_applier_eval pii_request_def ascii_lower_def less_eq_prod_def list_less_def)

text \<open>
  C2 fails in the code: no step removes or merges overlapping spans, although the source
  sorts the texts \<open>to handle overlapping redactions\<close> and rewrites from the end
  \<open>to maintain correct positions\<close>. The search resumes one character after each match, so
  the text \<open>aa\<close> is recorded twice in \<open>aaa\<close>, at the overlapping spans \<open>(0, 2)\<close> and
  \<open>(1, 3)\<close>, and the second rewrite cuts into the first marker: the output is
  \<open>[REDACTED]REDACTED]\<close>. Every text is searched in the original content, so with the
  accepted texts \<open>ab\<close> and \<open>abc\<close> the document \<open>abc ab\<close> has the spans \<open>(0, 3)\<close> and
  \<open>(0, 2)\<close> recorded at the same start, the shorter one is rewritten inside the marker
  of the longer one, and the file written is \<open>[REDACTED]EDACTED] [REDACTED]\<close>.
\<close>

theorem text_applier_overlapping_spans:
  "collect_redactions (str ''aaa'') (sort_suggestions ascii_lower [pii_request ''aa'']) =
     [(0, 2, REDACTED), (1, 3, REDACTED)] \<and>
   overlap (0, 2, REDACTED) (1, 3, REDACTED) \<and>
   redact_content ascii_lower (str ''aaa'') [pii_request ''aa''] = str ''[REDACTED]REDACTED]'' \<and>
   sort_redactions (collect_redactions (str ''abc ab'')
       (sort_suggestions ascii_lower [pii_request ''ab'', pii_request ''abc''])) =
     [(4, 6, REDACTED), (0, 3, REDACTED), (0, 2, REDACTED)] \<and>
   overlap (0, 3, REDACTED) (0, 2, REDACTED) \<and>
   redact_content ascii_lower (str ''abc ab'') [pii_request ''ab'', pii_request ''abc''] =
     str ''[REDACTED]EDACTED] [REDACTED]'' \<and>
   redact_document ascii_lower fitz_redact ai_init
     \<lparr>files = [str ''in.txt'' \<mapsto> TextFile (str ''abc ab'')], io_log = [], write_fault = None\<rparr>
     (str ''in.txt'') [pii_request ''ab'', pii_request ''abc''] (str ''out.txt'')
   = (Inr (Some (str ''out.txt'')),
      \<lparr>files = [str ''in.txt'' \<mapsto> TextFile (str ''abc ab''),
                str ''out.txt'' \<mapsto> TextFile (str ''[REDACTED]EDACTED] [REDACTED]'')],
         io_log = [EvRead (str ''in.txt''), EvWrite (str ''out.txt'')], write_fault = None\<rparr>)"
  by (simp add: dispatch_eval redact_text_def read_text_def write_text_def logged_def
        text_applier_eval pii_request_def less_eq_prod_def overlap_def)

end
